theory Spec2Isabelle
  imports Main "HOL-Library.Word"
begin

unbundle bit_operations_syntax

section \<open>JavaScript values\<close>

text \<open>
  The webhook server of \<^verbatim>\<open>src/index.ts\<close> handles untyped data: \<^verbatim>\<open>req.body\<close> is whatever
  \<^verbatim>\<open>express.json()\<close> parsed, and the value caught by \<^verbatim>\<open>catch (error: any)\<close> is whatever the
  handler threw. Both are modelled by one type of JavaScript values. A string is held as the
  byte sequence of its UTF-8 encoding, which is the form in which \<^verbatim>\<open>hmac.update\<close> and
  \<^verbatim>\<open>Buffer.from\<close> consume it. Numbers are the integer-valued ones; no property below
  depends on how a fraction is printed. An object is the list of its own properties in
  enumeration order.
\<close>

datatype js =
    Undefined
  | Null
  | Bool bool
  | Num int
  | Str string
  | Arr "js list"
  | Obj "(string \<times> js) list"

text \<open>Errors raised by the runtime (with their message), and values thrown by user code.\<close>

datatype js_error =
    RangeError string
  | TypeError string
  | Thrown js

text \<open>\<^verbatim>\<open>ToBoolean\<close>, which decides \<^verbatim>\<open>if (x)\<close>, \<^verbatim>\<open>!x\<close> and \<^verbatim>\<open>x || y\<close>.\<close>

fun truthy :: "js \<Rightarrow> bool" where
  "truthy Undefined = False"
| "truthy Null = False"
| "truthy (Bool b) = b"
| "truthy (Num n) = (n \<noteq> 0)"
| "truthy (Str s) = (s \<noteq> [])"
| "truthy (Arr xs) = True"
| "truthy (Obj kvs) = True"

section \<open>HMAC-SHA256 as Node's \<^verbatim>\<open>crypto\<close> module computes it\<close>

text \<open>
  \<^verbatim>\<open>crypto.createHmac('sha256', secret).update(payload).digest('hex')\<close> is the HMAC construction
  of RFC 2104 over SHA-256 of FIPS 180-4, printed as lowercase hexadecimal. The functions
  below follow the two standards on bytes (\<open>8 word\<close>) and 32-bit words.
\<close>

type_synonym byte = "8 word"
type_synonym u32 = "32 word"

definition Buffer_from :: "string \<Rightarrow> byte list" where
  "Buffer_from s = map of_char s"

definition rotr :: "nat \<Rightarrow> u32 \<Rightarrow> u32" where
  "rotr n x = drop_bit n x OR push_bit (32 - n) x"

definition Ch :: "u32 \<Rightarrow> u32 \<Rightarrow> u32 \<Rightarrow> u32" where
  "Ch x y z = (x AND y) XOR (NOT x AND z)"

definition Maj :: "u32 \<Rightarrow> u32 \<Rightarrow> u32 \<Rightarrow> u32" where
  "Maj x y z = (x AND y) XOR (x AND z) XOR (y AND z)"

definition Sigma0 :: "u32 \<Rightarrow> u32" where
  "Sigma0 x = rotr 2 x XOR rotr 13 x XOR rotr 22 x"

definition Sigma1 :: "u32 \<Rightarrow> u32" where
  "Sigma1 x = rotr 6 x XOR rotr 11 x XOR rotr 25 x"

definition sigma0 :: "u32 \<Rightarrow> u32" where
  "sigma0 x = rotr 7 x XOR rotr 18 x XOR drop_bit 3 x"

definition sigma1 :: "u32 \<Rightarrow> u32" where
  "sigma1 x = rotr 17 x XOR rotr 19 x XOR drop_bit 10 x"

text \<open>The round constants and the initial hash value, in decimal.\<close>

definition sha256_K :: "u32 list" where
  "sha256_K =
    [1116352408, 1899447441, 3049323471, 3921009573, 961987163, 1508970993,
     2453635748, 2870763221, 3624381080, 310598401, 607225278, 1426881987,
     1925078388, 2162078206, 2614888103, 3248222580, 3835390401, 4022224774,
     264347078, 604807628, 770255983, 1249150122, 1555081692, 1996064986,
     2554220882, 2821834349, 2952996808, 3210313671, 3336571891, 3584528711,
     113926993, 338241895, 666307205, 773529912, 1294757372, 1396182291,
     1695183700, 1986661051, 2177026350, 2456956037, 2730485921, 2820302411,
     3259730800, 3345764771, 3516065817, 3600352804, 4094571909, 275423344,
     430227734, 506948616, 659060556, 883997877, 958139571, 1322822218,
     1537002063, 1747873779, 1955562222, 2024104815, 2227730452, 2361852424,
     2428436474, 2756734187, 3204031479, 3329325298]"

definition sha256_H0 :: "u32 list" where
  "sha256_H0 =
    [1779033703, 3144134277, 1013904242, 2773480762, 1359893119, 2600822924,
     528734635, 1541459225]"

definition be32 :: "byte list \<Rightarrow> u32" where
  "be32 bs = foldl (\<lambda>acc b. push_bit 8 acc OR ucast b) 0 bs"

definition bytes_of_u32 :: "u32 \<Rightarrow> byte list" where
  "bytes_of_u32 w = [ucast (drop_bit 24 w), ucast (drop_bit 16 w), ucast (drop_bit 8 w), ucast w]"

definition bytes_of_u64 :: "64 word \<Rightarrow> byte list" where
  "bytes_of_u64 w = map (\<lambda>i. ucast (drop_bit (8 * i) w)) [7, 6, 5, 4, 3, 2, 1, 0]"

text \<open>Padding: a one bit, zeros up to 56 modulo 64 bytes, the bit length on 64 bits.\<close>

definition sha256_pad :: "byte list \<Rightarrow> byte list" where
  "sha256_pad m = m @ [128] @ replicate ((119 - length m mod 64) mod 64) 0
                    @ bytes_of_u64 (of_nat (8 * length m))"

text \<open>The message schedule, most recent word first.\<close>

fun schedule :: "nat \<Rightarrow> u32 list \<Rightarrow> u32 list" where
  "schedule 0 ws = ws"
| "schedule (Suc n) ws =
     schedule n ((sigma1 (ws ! 1) + ws ! 6 + sigma0 (ws ! 14) + ws ! 15) # ws)"

fun sha256_round :: "u32 list \<Rightarrow> u32 \<times> u32 \<Rightarrow> u32 list" where
  "sha256_round [a, b, c, d, e, f, g, h] (k, w) =
     (let t1 = h + Sigma1 e + Ch e f g + k + w;
          t2 = Sigma0 a + Maj a b c
      in [t1 + t2, a, b, c, d + t1, e, f, g])"
| "sha256_round s _ = s"

definition words_of_block :: "byte list \<Rightarrow> u32 list" where
  "words_of_block blk = map (\<lambda>i. be32 (take 4 (drop (4 * i) blk))) [0..<16]"

definition compress :: "u32 list \<Rightarrow> byte list \<Rightarrow> u32 list" where
  "compress hs blk =
     (let w = rev (schedule 48 (rev (words_of_block blk)))
      in map2 (+) hs (foldl sha256_round hs (zip sha256_K w)))"

definition blocks :: "byte list \<Rightarrow> byte list list" where
  "blocks bs = map (\<lambda>i. take 64 (drop (64 * i) bs)) [0..<length bs div 64]"

definition sha256 :: "byte list \<Rightarrow> byte list" where
  "sha256 m = concat (map bytes_of_u32 (foldl compress sha256_H0 (blocks (sha256_pad m))))"

definition hmac_sha256 :: "byte list \<Rightarrow> byte list \<Rightarrow> byte list" where
  "hmac_sha256 key msg =
     (let k0 = (if length key > 64 then sha256 key else key);
          k = k0 @ replicate (64 - length k0) 0
      in sha256 (map (\<lambda>b. b XOR 92) k @ sha256 (map (\<lambda>b. b XOR 54) k @ msg)))"

definition hex_digit :: "nat \<Rightarrow> char" where
  "hex_digit n = ''0123456789abcdef'' ! n"

definition digest_hex :: "byte list \<Rightarrow> string" where
  "digest_hex bs = concat (map (\<lambda>b. [hex_digit (unat b div 16), hex_digit (unat b mod 16)]) bs)"

section \<open>Signature verification (\<^verbatim>\<open>src/index.ts\<close>, lines 187 to 208)\<close>

definition createSignature :: "string \<Rightarrow> string \<Rightarrow> string" where
  "createSignature payload secret =
     digest_hex (hmac_sha256 (Buffer_from secret) (Buffer_from payload))"

text \<open>
  \<^verbatim>\<open>crypto.timingSafeEqual\<close> throws a \<^verbatim>\<open>RangeError\<close> with code
  \<^verbatim>\<open>ERR_CRYPTO_TIMING_SAFE_EQUAL_LENGTH\<close> when its arguments differ in byte length, and
  compares the bytes otherwise.
\<close>

definition ERR_CRYPTO_TIMING_SAFE_EQUAL_LENGTH :: js_error where
  "ERR_CRYPTO_TIMING_SAFE_EQUAL_LENGTH = RangeError ''Input buffers must have the same byte length''"

definition timingSafeEqual :: "byte list \<Rightarrow> byte list \<Rightarrow> js_error + bool" where
  "timingSafeEqual a b =
     (if length a \<noteq> length b then Inl ERR_CRYPTO_TIMING_SAFE_EQUAL_LENGTH else Inr (a = b))"

definition verifySignature :: "string \<Rightarrow> string \<Rightarrow> string \<Rightarrow> js_error + bool" where
  "verifySignature payload signature secret =
     (let expectedSignature = digest_hex (hmac_sha256 (Buffer_from secret) (Buffer_from payload))
      in timingSafeEqual (Buffer_from signature) (Buffer_from expectedSignature))"

section \<open>\<^verbatim>\<open>JSON.stringify\<close>\<close>

text \<open>
  The serialisation of ECMA-262 (\<^verbatim>\<open>SerializeJSONProperty\<close>) without a replacer or indentation:
  no whitespace, properties in enumeration order, \<^verbatim>\<open>undefined\<close> dropped from objects and
  printed as \<^verbatim>\<open>null\<close> in arrays. At the top level \<^verbatim>\<open>JSON.stringify(undefined)\<close> is
  \<^verbatim>\<open>undefined\<close>, here \<open>None\<close>. A number is an integer and is printed with all its decimal digits,
  which is what JavaScript prints for the integers of magnitude below \<^verbatim>\<open>1e21\<close>; the parser of
  the request bodies yields none of magnitude above \<^verbatim>\<open>Number.MAX_SAFE_INTEGER\<close>.
\<close>

definition digit_char :: "nat \<Rightarrow> char" where
  "digit_char n = ''0123456789'' ! n"

fun show_nat :: "nat \<Rightarrow> string" where
  "show_nat n = (if n < 10 then [digit_char n] else show_nat (n div 10) @ [digit_char (n mod 10)])"

declare show_nat.simps [simp del]

definition show_int :: "int \<Rightarrow> string" where
  "show_int i = (if i < 0 then CHR ''-'' # show_nat (nat (- i)) else show_nat (nat i))"

definition quote_char :: "char \<Rightarrow> string" where
  "quote_char c =
     (if c = CHR 0x22 then [CHR 0x5C, CHR 0x22]
      else if c = CHR 0x5C then [CHR 0x5C, CHR 0x5C]
      else if c = CHR 0x08 then [CHR 0x5C, CHR ''b'']
      else if c = CHR 0x0C then [CHR 0x5C, CHR ''f'']
      else if c = CHR 0x0A then [CHR 0x5C, CHR ''n'']
      else if c = CHR 0x0D then [CHR 0x5C, CHR ''r'']
      else if c = CHR 0x09 then [CHR 0x5C, CHR ''t'']
      else if (of_char c :: nat) < 32
        then [CHR 0x5C, CHR ''u'', CHR ''0'', CHR ''0'',
              hex_digit (of_char c div 16), hex_digit (of_char c mod 16)]
      else [c])"

definition JSON_quote :: "string \<Rightarrow> string" where
  "JSON_quote s = CHR 0x22 # concat (map quote_char s) @ [CHR 0x22]"

fun join :: "string \<Rightarrow> string list \<Rightarrow> string" where
  "join sep [] = []"
| "join sep [x] = x"
| "join sep (x # y # ys) = x @ sep @ join sep (y # ys)"

fun JSON_stringify :: "js \<Rightarrow> string option" where
  "JSON_stringify Undefined = None"
| "JSON_stringify Null = Some ''null''"
| "JSON_stringify (Bool b) = Some (if b then ''true'' else ''false'')"
| "JSON_stringify (Num n) = Some (show_int n)"
| "JSON_stringify (Str s) = Some (JSON_quote s)"
| "JSON_stringify (Arr xs) =
     Some (''['' @ join '','' (map (\<lambda>x. case JSON_stringify x of
                                         None \<Rightarrow> ''null'' | Some t \<Rightarrow> t) xs) @ '']'')"
| "JSON_stringify (Obj kvs) =
     Some (''{'' @ join '','' (concat (map (\<lambda>kv. case JSON_stringify (snd kv) of
                                         None \<Rightarrow> []
                                       | Some t \<Rightarrow> [JSON_quote (fst kv) @ '':'' @ t]) kvs)) @ ''}'')"

section \<open>Property reads and \<^verbatim>\<open>||\<close>\<close>

text \<open>
  Reading a property of \<^verbatim>\<open>undefined\<close> or \<^verbatim>\<open>null\<close> throws a \<^verbatim>\<open>TypeError\<close> (the message is
  V8's). The program reads only the names \<^verbatim>\<open>query_id\<close>, \<^verbatim>\<open>queryId\<close>, \<^verbatim>\<open>query\<close>, \<^verbatim>\<open>text\<close>,
  \<^verbatim>\<open>prompt\<close>, \<^verbatim>\<open>capabilities\<close>, \<^verbatim>\<open>capabilities_needed\<close>, \<^verbatim>\<open>metadata\<close>, \<^verbatim>\<open>timestamp\<close> and
  \<^verbatim>\<open>message\<close>; none of them is defined by the prototypes of objects, arrays, strings,
  numbers or booleans, so a read finds an own property or \<^verbatim>\<open>undefined\<close>.
\<close>

definition nullish_read :: "string \<Rightarrow> string \<Rightarrow> js_error" where
  "nullish_read base k =
     TypeError (''Cannot read properties of '' @ base @ '' (reading '' @ [CHR 0x27] @ k @ [CHR 0x27] @ '')'')"

fun get_prop :: "js \<Rightarrow> string \<Rightarrow> js_error + js" where
  "get_prop Undefined k = Inl (nullish_read ''undefined'' k)"
| "get_prop Null k = Inl (nullish_read ''null'' k)"
| "get_prop (Obj kvs) k = Inr (case map_of kvs k of Some v \<Rightarrow> v | None \<Rightarrow> Undefined)"
| "get_prop v k = Inr Undefined"

text \<open>\<^verbatim>\<open>a || b\<close>: the left operand when it is truthy, the right one otherwise.\<close>

definition js_or :: "js_error + js \<Rightarrow> js_error + js \<Rightarrow> js_error + js" where
  "js_or a b = (case a of Inl e \<Rightarrow> Inl e | Inr v \<Rightarrow> if truthy v then Inr v else b)"

text \<open>\<^verbatim>\<open>error.message\<close> in a \<^verbatim>\<open>catch (error: any)\<close> block.\<close>

fun error_message :: "js_error \<Rightarrow> js_error + js" where
  "error_message (RangeError m) = Inr (Str m)"
| "error_message (TypeError m) = Inr (Str m)"
| "error_message (Thrown v) = get_prop v ''message''"

section \<open>The agent (\<^verbatim>\<open>src/index.ts\<close>, lines 31 to 62 and 212 to 302)\<close>

record IncomingQuery =
  queryId :: js
  "text" :: js
  capabilities :: js
  metadata :: js
  timestamp :: js

text \<open>
  The handler's result, as the interface \<^verbatim>\<open>QueryResponse\<close> types it; an optional field that is
  left out is \<open>Undefined\<close> or \<open>None\<close>.
\<close>

record QueryResponse =
  response :: string
  metadata :: js
  cost :: "int option"

text \<open>What awaiting the handler's promise gives: its value, or the value it was rejected with.\<close>

datatype 'a promise = Resolved 'a | Rejected js

type_synonym QueryHandler = "IncomingQuery \<Rightarrow> QueryResponse promise"

record MTAgentConfig =
  apiKey :: string
  webhookSecret :: string
  port :: "nat option"
  marketplaceUrl :: "string option"

record MTAgent =
  config_apiKey :: string
  config_webhookSecret :: string
  config_port :: nat
  config_marketplaceUrl :: string
  queryHandler :: "QueryHandler option"

definition new_MTAgent :: "MTAgentConfig \<Rightarrow> MTAgent" where
  "new_MTAgent config =
     \<lparr> config_apiKey = apiKey config,
       config_webhookSecret = webhookSecret config,
       config_port = (case port config of None \<Rightarrow> 3000 | Some p \<Rightarrow> if p = 0 then 3000 else p),
       config_marketplaceUrl =
         (case marketplaceUrl config of
            None \<Rightarrow> ''https://marketplace.metaltorque.dev/marketplace''
          | Some u \<Rightarrow> if u = [] then ''https://marketplace.metaltorque.dev/marketplace'' else u),
       queryHandler = None \<rparr>"

definition onQuery :: "QueryHandler \<Rightarrow> MTAgent \<Rightarrow> MTAgent" where
  "onQuery handler agent = agent\<lparr>queryHandler := Some handler\<rparr>"

text \<open>
  What one request reads from outside the program: the two readings of \<^verbatim>\<open>Date.now()\<close>
  (on entry, and after the handler settled), the result of \<^verbatim>\<open>crypto.randomUUID()\<close> and
  of \<^verbatim>\<open>new Date().toISOString()\<close>.
\<close>

record env =
  startTime :: int
  endTime :: int
  randomUUID :: string
  nowISO :: string

text \<open>
  The request as the route sees it: the header map, and \<^verbatim>\<open>req.body\<close> as the
  \<^verbatim>\<open>express.json()\<close> middleware left it.
\<close>

record request =
  headers :: "string \<rightharpoonup> string"
  body :: js

text \<open>
  What the route does that a caller can observe: the calls it makes, in order, and how it
  ends. \<open>Responded status obj\<close> is \<^verbatim>\<open>res.status(status).json(obj)\<close>; \<open>Unhandled e\<close> is an
  exception that leaves the \<^verbatim>\<open>async\<close> callback, so that its promise is rejected and the
  route sends no response.
\<close>

datatype event =
    VerifySignatureCall string string string
  | HandlerCall IncomingQuery

datatype outcome =
    Responded nat js
  | Unhandled js_error

text \<open>Lines 262 to 268: the canonical query, field by field in source order.\<close>

definition build_query :: "env \<Rightarrow> js \<Rightarrow> js_error + IncomingQuery" where
  "build_query e b =
     (case js_or (get_prop b ''query_id'')
             (js_or (get_prop b ''queryId'') (Inr (Str (randomUUID e)))) of
        Inl err \<Rightarrow> Inl err
      | Inr qid \<Rightarrow>
     (case js_or (get_prop b ''query'')
             (js_or (get_prop b ''text'') (js_or (get_prop b ''prompt'') (Inr (Str [])))) of
        Inl err \<Rightarrow> Inl err
      | Inr txt \<Rightarrow>
     (case js_or (get_prop b ''capabilities'')
             (js_or (get_prop b ''capabilities_needed'') (Inr (Arr []))) of
        Inl err \<Rightarrow> Inl err
      | Inr caps \<Rightarrow>
     (case js_or (get_prop b ''metadata'') (Inr (Obj [])) of
        Inl err \<Rightarrow> Inl err
      | Inr meta \<Rightarrow>
     (case js_or (get_prop b ''timestamp'') (Inr (Str (nowISO e))) of
        Inl err \<Rightarrow> Inl err
      | Inr ts \<Rightarrow>
          Inr \<lparr> queryId = qid, text = txt, capabilities = caps, metadata = meta,
                timestamp = ts \<rparr>)))))"

text \<open>Lines 279 to 286: the \<^verbatim>\<open>catch\<close> block.\<close>

definition catch_block :: "env \<Rightarrow> js_error \<Rightarrow> outcome" where
  "catch_block e error =
     (let duration = endTime e - startTime e in
      case error_message error of
        Inl err \<Rightarrow> Unhandled err
      | Inr m \<Rightarrow>
          Responded 500 (Obj [(''success'', Bool False),
                              (''error'', if truthy m then m else Str ''Query handler error''),
                              (''duration_ms'', Num duration)]))"

text \<open>Lines 261 to 278: the \<^verbatim>\<open>try\<close> block.\<close>

definition try_block :: "QueryHandler \<Rightarrow> env \<Rightarrow> js \<Rightarrow> event list \<times> outcome" where
  "try_block handler e b =
     (case build_query e b of
        Inl err \<Rightarrow> ([], catch_block e err)
      | Inr query \<Rightarrow>
          (case handler query of
             Rejected v \<Rightarrow> ([HandlerCall query], catch_block e (Thrown v))
           | Resolved r \<Rightarrow>
               (let duration = endTime e - startTime e in
                ([HandlerCall query],
                 Responded 200 (Obj [(''success'', Bool True),
                                     (''response'', Str (response r)),
                                     (''metadata'', QueryResponse.metadata r),
                                     (''duration_ms'', Num duration)])))))"

text \<open>Lines 257 to 286: what follows the signature check.\<close>

definition after_signature :: "MTAgent \<Rightarrow> env \<Rightarrow> request \<Rightarrow> event list \<times> outcome" where
  "after_signature agent e req =
     (case queryHandler agent of
        None \<Rightarrow> ([], Responded 500 (Obj [(''error'', Str ''No query handler registered'')]))
      | Some handler \<Rightarrow> try_block handler e (body req))"

text \<open>
  \<^verbatim>\<open>hmac.update(undefined)\<close>, reached when \<^verbatim>\<open>JSON.stringify(req.body)\<close> is \<^verbatim>\<open>undefined\<close>.
\<close>

definition ERR_INVALID_ARG_TYPE :: js_error where
  "ERR_INVALID_ARG_TYPE = TypeError ''The \"data\" argument must be of type string or an instance of Buffer, TypedArray, or DataView. Received undefined''"

text \<open>Lines 245 to 287: the callback of \<^verbatim>\<open>POST /query\<close>.\<close>

definition post_query :: "MTAgent \<Rightarrow> env \<Rightarrow> request \<Rightarrow> event list \<times> outcome" where
  "post_query agent e req =
     (case headers req ''x-mt-signature'' of
        None \<Rightarrow> after_signature agent e req
      | Some signature \<Rightarrow>
          if signature = [] then after_signature agent e req
          else
            (case JSON_stringify (body req) of
               None \<Rightarrow> ([], Unhandled ERR_INVALID_ARG_TYPE)
             | Some payload \<Rightarrow>
                 (case verifySignature payload signature (config_webhookSecret agent) of
                    Inl err \<Rightarrow>
                      ([VerifySignatureCall payload signature (config_webhookSecret agent)],
                       Unhandled err)
                  | Inr ok \<Rightarrow>
                      if \<not> ok then
                        ([VerifySignatureCall payload signature (config_webhookSecret agent)],
                         Responded 401 (Obj [(''error'', Str ''Invalid signature'')]))
                      else
                        (let (events, out) = after_signature agent e req in
                         (VerifySignatureCall payload signature (config_webhookSecret agent)
                            # events, out)))))"

section \<open>The \<^verbatim>\<open>express.json()\<close> middleware (\<^verbatim>\<open>src/index.ts\<close>, line 228)\<close>

text \<open>
  The constructor installs \<^verbatim>\<open>express.json()\<close> before the routes, so the route never sees the bytes
  of the body: it sees what \<^verbatim>\<open>JSON.parse\<close> made of them. The parser below reads the JSON grammar of
  ECMA-404 on a request that carries a JSON body. Three kinds of text are recognised and reported
  as \<open>Unsupported\<close> rather than parsed, because the value they denote is outside the type \<open>js\<close>
  or needs more of JavaScript than is modelled: a Unicode escape, a number with a fraction, an
  exponent or more than 53 bits, and a property name made of digits only (an array index, which
  JavaScript enumerates before the other properties). The parser recurses on fuel; \<open>JSON_parse\<close>
  starts it with twice the length of the text.
\<close>

datatype 'a parsed =
    Ok 'a string
  | SyntaxError
  | Unsupported
  | OutOfFuel

definition then_parse :: "'a parsed \<Rightarrow> ('a \<Rightarrow> string \<Rightarrow> 'b parsed) \<Rightarrow> 'b parsed" where
  "then_parse p f =
     (case p of Ok x rest \<Rightarrow> f x rest | SyntaxError \<Rightarrow> SyntaxError
      | Unsupported \<Rightarrow> Unsupported | OutOfFuel \<Rightarrow> OutOfFuel)"

definition is_ws :: "char \<Rightarrow> bool" where
  "is_ws c = (c = CHR 0x20 \<or> c = CHR 0x09 \<or> c = CHR 0x0A \<or> c = CHR 0x0D)"

fun skip_ws :: "string \<Rightarrow> string" where
  "skip_ws [] = []"
| "skip_ws (c # cs) = (if is_ws c then skip_ws cs else c # cs)"

definition is_digit :: "char \<Rightarrow> bool" where
  "is_digit c = (48 \<le> (of_char c :: nat) \<and> (of_char c :: nat) \<le> 57)"

definition unescape :: "char \<Rightarrow> char option" where
  "unescape c =
     (if c = CHR 0x22 then Some (CHR 0x22)
      else if c = CHR 0x5C then Some (CHR 0x5C)
      else if c = CHR ''/'' then Some (CHR ''/'')
      else if c = CHR ''b'' then Some (CHR 0x08)
      else if c = CHR ''f'' then Some (CHR 0x0C)
      else if c = CHR ''n'' then Some (CHR 0x0A)
      else if c = CHR ''r'' then Some (CHR 0x0D)
      else if c = CHR ''t'' then Some (CHR 0x09)
      else None)"

text \<open>The characters of a string, after its opening quote.\<close>

fun parse_chars :: "string \<Rightarrow> string parsed" where
  "parse_chars [] = SyntaxError"
| "parse_chars [c] = (if c = CHR 0x22 then Ok [] [] else SyntaxError)"
| "parse_chars (c # d # cs) =
     (if c = CHR 0x22 then Ok [] (d # cs)
      else if c = CHR 0x5C then
        (if d = CHR ''u'' then Unsupported
         else case unescape d of
                None \<Rightarrow> SyntaxError
              | Some x \<Rightarrow> then_parse (parse_chars cs) (\<lambda>s rest. Ok (x # s) rest))
      else if (of_char c :: nat) < 32 then SyntaxError
      else then_parse (parse_chars (d # cs)) (\<lambda>s rest. Ok (c # s) rest))"

definition nat_of_digits :: "string \<Rightarrow> nat" where
  "nat_of_digits ds = foldl (\<lambda>n c. 10 * n + (of_char c - 48)) 0 ds"

definition parse_number :: "string \<Rightarrow> js parsed" where
  "parse_number cs =
     (let negative = (cs \<noteq> [] \<and> hd cs = CHR ''-'');
          cs1 = (if negative then tl cs else cs);
          ds = takeWhile is_digit cs1;
          rest = dropWhile is_digit cs1
      in if ds = [] then SyntaxError
         else if hd ds = CHR ''0'' \<and> tl ds \<noteq> [] then SyntaxError
         else if rest \<noteq> [] \<and> (hd rest = CHR ''.'' \<or> hd rest = CHR ''e'' \<or> hd rest = CHR ''E'')
           then Unsupported
         else if nat_of_digits ds > 9007199254740991 then Unsupported
         else Ok (Num (if negative then - int (nat_of_digits ds) else int (nat_of_digits ds))) rest)"

definition parse_literal :: "string \<Rightarrow> js \<Rightarrow> string \<Rightarrow> js parsed" where
  "parse_literal word v cs =
     (if take (length word) cs = word then Ok v (drop (length word) cs) else SyntaxError)"

text \<open>
  A repeated property name keeps the place of its first occurrence and the value of its last.
\<close>

fun set_prop :: "string \<Rightarrow> js \<Rightarrow> (string \<times> js) list \<Rightarrow> (string \<times> js) list" where
  "set_prop k v [] = [(k, v)]"
| "set_prop k v ((k', v') # kvs) = (if k = k' then (k, v) # kvs else (k', v') # set_prop k v kvs)"

definition is_index_key :: "string \<Rightarrow> bool" where
  "is_index_key k = (k \<noteq> [] \<and> list_all is_digit k)"

definition make_object :: "(string \<times> js) list \<Rightarrow> js" where
  "make_object members = Obj (foldl (\<lambda>obj kv. set_prop (fst kv) (snd kv) obj) [] members)"

fun parse_value :: "nat \<Rightarrow> string \<Rightarrow> js parsed"
  and parse_elements :: "nat \<Rightarrow> string \<Rightarrow> js list parsed"
  and parse_members :: "nat \<Rightarrow> string \<Rightarrow> (string \<times> js) list parsed"
where
  "parse_value 0 cs = OutOfFuel"
| "parse_value (Suc n) [] = SyntaxError"
| "parse_value (Suc n) (c # cs) =
     (if c = CHR ''{'' then
        (case skip_ws cs of
           [] \<Rightarrow> SyntaxError
         | d # ds \<Rightarrow>
             if d = CHR ''}'' then Ok (Obj []) ds
             else then_parse (parse_members n (d # ds))
                    (\<lambda>members rest.
                       if list_ex is_index_key (map fst members) then Unsupported
                       else Ok (make_object members) rest))
      else if c = CHR ''['' then
        (case skip_ws cs of
           [] \<Rightarrow> SyntaxError
         | d # ds \<Rightarrow>
             if d = CHR '']'' then Ok (Arr []) ds
             else then_parse (parse_elements n (d # ds)) (\<lambda>vs rest. Ok (Arr vs) rest))
      else if c = CHR 0x22 then then_parse (parse_chars cs) (\<lambda>s rest. Ok (Str s) rest)
      else if c = CHR ''t'' then parse_literal ''true'' (Bool True) (c # cs)
      else if c = CHR ''f'' then parse_literal ''false'' (Bool False) (c # cs)
      else if c = CHR ''n'' then parse_literal ''null'' Null (c # cs)
      else if c = CHR ''-'' \<or> is_digit c then parse_number (c # cs)
      else SyntaxError)"
| "parse_elements 0 cs = OutOfFuel"
| "parse_elements (Suc n) cs =
     then_parse (parse_value n cs)
       (\<lambda>v rest.
          case skip_ws rest of
            [] \<Rightarrow> SyntaxError
          | d # ds \<Rightarrow>
              if d = CHR '','' then
                then_parse (parse_elements n (skip_ws ds)) (\<lambda>vs rest'. Ok (v # vs) rest')
              else if d = CHR '']'' then Ok [v] ds
              else SyntaxError)"
| "parse_members 0 cs = OutOfFuel"
| "parse_members (Suc n) [] = SyntaxError"
| "parse_members (Suc n) (q # cs) =
     (if q \<noteq> CHR 0x22 then SyntaxError
      else then_parse (parse_chars cs)
        (\<lambda>k rest.
           case skip_ws rest of
             [] \<Rightarrow> SyntaxError
           | colon # cs2 \<Rightarrow>
               if colon \<noteq> CHR '':'' then SyntaxError
               else then_parse (parse_value n (skip_ws cs2))
                 (\<lambda>v rest'.
                    case skip_ws rest' of
                      [] \<Rightarrow> SyntaxError
                    | d # ds \<Rightarrow>
                        if d = CHR '','' then
                          then_parse (parse_members n (skip_ws ds))
                            (\<lambda>kvs rest''. Ok ((k, v) # kvs) rest'')
                        else if d = CHR ''}'' then Ok [(k, v)] ds
                        else SyntaxError)))"

definition JSON_parse :: "string \<Rightarrow> js parsed" where
  "JSON_parse s =
     then_parse (parse_value (2 * length s + 2) (skip_ws s))
       (\<lambda>v rest. if skip_ws rest = [] then Ok v [] else SyntaxError)"

text \<open>
  The request on the wire, for a request whose \<^verbatim>\<open>Content-Type\<close> is \<^verbatim>\<open>application/json\<close> in UTF-8:
  its headers and the bytes of its body. The middleware refuses a body over 100 kB with status
  413, takes an empty body for \<^verbatim>\<open>{}\<close>, and in its strict mode (the default) refuses with status
  400 a text that does not start with \<^verbatim>\<open>{\<close> or \<^verbatim>\<open>[\<close> or that \<^verbatim>\<open>JSON.parse\<close> rejects. A refused
  request never reaches the route. The body is taken to be valid UTF-8 without a byte order
  mark: the decoding step of the middleware, which strips the mark and replaces an invalid
  sequence by \<^verbatim>\<open>U+FFFD\<close>, is left out, and a string is the list of its bytes.
\<close>

record raw_request =
  raw_headers :: "string \<rightharpoonup> string"
  raw_body :: string

datatype middleware_result =
    Next request
  | Failed nat
  | NotModelled

definition express_json :: "raw_request \<Rightarrow> middleware_result" where
  "express_json raw =
     (if length (raw_body raw) > 102400 then Failed 413
      else if raw_body raw = [] then Next \<lparr> headers = raw_headers raw, body = Obj [] \<rparr>
      else
        (case skip_ws (raw_body raw) of
           [] \<Rightarrow> Failed 400
         | c # cs \<Rightarrow>
             if c \<noteq> CHR ''{'' \<and> c \<noteq> CHR ''['' then Failed 400
             else
               (case JSON_parse (raw_body raw) of
                  Ok v rest \<Rightarrow> Next \<lparr> headers = raw_headers raw, body = v \<rparr>
                | SyntaxError \<Rightarrow> Failed 400
                | Unsupported \<Rightarrow> NotModelled
                | OutOfFuel \<Rightarrow> NotModelled)))"

section \<open>Notions used to state the properties\<close>

text \<open>
  A request passes the signature check of lines 249 to 255 when it has no signature header, an
  empty one, or one that \<open>verifySignature\<close> accepts for the payload the route computes.
\<close>

definition passes_signature_check :: "MTAgent \<Rightarrow> request \<Rightarrow> bool" where
  "passes_signature_check agent req =
     (case headers req ''x-mt-signature'' of
        None \<Rightarrow> True
      | Some signature \<Rightarrow>
          signature = [] \<or>
          (case JSON_stringify (body req) of
             None \<Rightarrow> False
           | Some payload \<Rightarrow>
               verifySignature payload signature (config_webhookSecret agent) = Inr True))"

text \<open>
  Two readings of "the first field among the ordered aliases", with the default \<open>d\<close> when there
  is none: the first alias whose value is truthy, and, as the specification words it, the first
  alias that is present in the body.
\<close>

fun first_truthy :: "string list \<Rightarrow> (string \<times> js) list \<Rightarrow> js \<Rightarrow> js" where
  "first_truthy [] kvs d = d"
| "first_truthy (k # ks) kvs d =
     (case map_of kvs k of
        Some v \<Rightarrow> if truthy v then v else first_truthy ks kvs d
      | None \<Rightarrow> first_truthy ks kvs d)"

fun first_present :: "string list \<Rightarrow> (string \<times> js) list \<Rightarrow> js \<Rightarrow> js" where
  "first_present [] kvs d = d"
| "first_present (k # ks) kvs d =
     (case map_of kvs k of Some v \<Rightarrow> v | None \<Rightarrow> first_present ks kvs d)"

text \<open>The uppercase form of a hexadecimal string.\<close>

definition upper_char :: "char \<Rightarrow> char" where
  "upper_char c =
     (if 97 \<le> (of_char c :: nat) \<and> (of_char c :: nat) \<le> 122 then char_of ((of_char c :: nat) - 32)
      else c)"

definition toUpperCase :: "string \<Rightarrow> string" where
  "toUpperCase s = map upper_char s"

section \<open>Example inputs\<close>

text \<open>
  The scenario of the specification: an agent whose webhook secret is \<^verbatim>\<open>s1\<close>, and a request whose
  parsed body is \<^verbatim>\<open>{"query":"x"}\<close>. The handler \<open>echo\<close> answers \<^verbatim>\<open>ok\<close> and sets a cost.
\<close>

definition agent_s1 :: MTAgent where
  "agent_s1 = new_MTAgent \<lparr> apiKey = ''mt_key'', webhookSecret = ''s1'', port = None,
                               marketplaceUrl = None \<rparr>"

definition echo :: QueryHandler where
  "echo query = Resolved \<lparr> response = ''ok'', metadata = Undefined, cost = Some 5 \<rparr>"

definition env0 :: env where
  "env0 = \<lparr> startTime = 1700000000000, endTime = 1700000000007,
             randomUUID = ''123e4567-e89b-42d3-a456-426614174000'',
             nowISO = ''2023-11-14T22:13:20.000Z'' \<rparr>"

definition query_x :: js where
  "query_x = Obj [(''query'', Str ''x'')]"

text \<open>The canonical query the route builds from \<open>query_x\<close> under \<open>env0\<close>.\<close>

definition canonical_x :: IncomingQuery where
  "canonical_x = \<lparr> queryId = Str ''123e4567-e89b-42d3-a456-426614174000'', text = Str ''x'',
                     capabilities = Arr [], metadata = Obj [],
                     timestamp = Str ''2023-11-14T22:13:20.000Z'' \<rparr>"

text \<open>
  A signature header of the right length that is not hexadecimal, and the HMAC-SHA256 of the
  fourteen bytes \<^verbatim>\<open>{"query": "x"}\<close> (with a space after the colon) under the secret \<^verbatim>\<open>s1\<close>, as a
  sender that signs what it sends computes it.
\<close>

definition sig_z :: string where
  "sig_z = ''zzzzzzzzzzzzzzzzzzzzzzzzzzzzzzzzzzzzzzzzzzzzzzzzzzzzzzzzzzzzzzzz''"

definition sig_raw :: string where
  "sig_raw = ''be94ac0bc6d91812684b68ac2f4a9b2970aa9e978405bfc0ac93534ee777f324''"

section \<open>Properties of the signature functions\<close>

lemma length_schedule: "length (schedule n ws) = n + length ws"
  by (induction n arbitrary: ws) simp_all

lemma length_sha256_round: "length (sha256_round s kw) = length s"
  by (cases "(s, kw)" rule: sha256_round.cases) (simp_all add: Let_def)

lemma length_foldl_round: "length (foldl sha256_round s kws) = length s"
  by (induction kws arbitrary: s) (simp_all add: length_sha256_round)

lemma length_compress: "length (compress hs blk) = length hs"
  by (simp add: compress_def Let_def length_foldl_round)

lemma length_foldl_compress: "length (foldl compress hs bs) = length hs"
  by (induction bs arbitrary: hs) (simp_all add: length_compress)

lemma length_concat_bytes: "length (concat (map bytes_of_u32 ws)) = 4 * length ws"
  by (induction ws) (simp_all add: bytes_of_u32_def)

lemma length_sha256: "length (sha256 m) = 32"
  by (simp add: sha256_def length_concat_bytes length_foldl_compress sha256_H0_def)

lemma length_hmac_sha256: "length (hmac_sha256 key msg) = 32"
  by (simp add: hmac_sha256_def Let_def length_sha256)

lemma length_digest_hex: "length (digest_hex bs) = 2 * length bs"
  by (induction bs) (simp_all add: digest_hex_def)

lemma length_createSignature: "length (createSignature payload secret) = 64"
  by (simp add: createSignature_def length_digest_hex length_hmac_sha256)

lemma length_Buffer_from: "length (Buffer_from s) = length s"
  by (simp add: Buffer_from_def)

text \<open>The digest of FIPS 180-4's one-block example, the three bytes \<^verbatim>\<open>abc\<close>.\<close>

lemma sha256_abc:
  "digest_hex (sha256 (Buffer_from ''abc''))
     = ''ba7816bf8f01cfea414140de5dae2223b00361a396177a9cb410ff61f20015ad''"
  by code_simp

text \<open>Two strings have the same bytes only if they are the same string.\<close>

lemma unat_of_char: "unat (of_char c :: byte) = of_char c"
proof -
  have "(of_char c :: byte) = of_nat (of_char c)"
    by (simp add: of_nat_of_char)
  then have "unat (of_char c :: byte) = (of_char c :: nat) mod 256"
    by (simp add: unat_of_nat)
  then show ?thesis by simp
qed

lemma Buffer_from_eq_iff: "Buffer_from s = Buffer_from t \<longleftrightarrow> s = t"
proof
  assume "Buffer_from s = Buffer_from t"
  then have "map unat (Buffer_from s) = map unat (Buffer_from t)" by simp
  then have "map (of_char :: char \<Rightarrow> nat) s = map of_char t"
    by (simp add: Buffer_from_def comp_def unat_of_char)
  then show "s = t"
    by (simp add: inj_map_eq_map inj_of_char)
qed simp

text \<open>
  What \<open>verifySignature\<close> does, case by case: it throws unless the signature has the 64 bytes
  of a hexadecimal SHA-256 digest, and otherwise compares the signature, as a string, with the
  lowercase hexadecimal digest.
\<close>

lemma verifySignature_cases:
  "verifySignature payload signature secret =
     (if length signature \<noteq> 64 then Inl ERR_CRYPTO_TIMING_SAFE_EQUAL_LENGTH
      else Inr (signature = createSignature payload secret))"
  by (simp add: verifySignature_def timingSafeEqual_def createSignature_def length_Buffer_from
      length_digest_hex length_hmac_sha256 Buffer_from_eq_iff)

lemma hex_digit_in: "n < 16 \<Longrightarrow> hex_digit n \<in> set ''0123456789abcdef''"
  unfolding hex_digit_def by (rule nth_mem) simp

lemma set_digest_hex: "set (digest_hex bs) \<subseteq> set ''0123456789abcdef''"
proof -
  have "hex_digit (unat b div 16) \<in> set ''0123456789abcdef''" for b :: byte
  proof (rule hex_digit_in)
    have "unat b < 256" using unsigned_less [of b] by simp
    then show "unat b div 16 < 16" by simp
  qed
  moreover have "hex_digit (unat b mod 16) \<in> set ''0123456789abcdef''" for b :: byte
    by (rule hex_digit_in) simp
  ultimately show ?thesis
    unfolding digest_hex_def by (induction bs) auto
qed

lemma createSignature_hex:
  "c \<in> set (createSignature payload secret) \<Longrightarrow> c \<in> set ''0123456789abcdef''"
  using set_digest_hex unfolding createSignature_def by blast

lemma sig_z_differs: "sig_z \<noteq> createSignature payload secret"
proof
  assume "sig_z = createSignature payload secret"
  moreover have "CHR ''z'' \<in> set sig_z" by (simp add: sig_z_def)
  ultimately have "CHR ''z'' \<in> set (createSignature payload secret)" by simp
  then show False using createSignature_hex [of "CHR ''z''" payload secret] by simp
qed

text \<open>
  C2. A signature made by \<open>createSignature\<close> verifies: for every payload and every secret,
  \<open>verifySignature\<close> applied to the payload, its signature and the same secret returns
  \<open>true\<close>, without throwing.
\<close>

theorem verify_createSignature:
  "verifySignature payload (createSignature payload secret) secret = Inr True"
  by (simp add: verifySignature_def createSignature_def timingSafeEqual_def)

text \<open>
  C1. A malformed signature is to make \<open>verifySignature\<close> return \<open>false\<close>. For a signature of
  the wrong length it does not: \<^verbatim>\<open>crypto.timingSafeEqual\<close> is called on buffers of 3 and of 64
  bytes and throws its \<^verbatim>\<open>RangeError\<close>, which \<open>verifySignature\<close> lets through.
\<close>

theorem verifySignature_short_signature_throws:
  "verifySignature ''{\"query\":\"x\"}'' ''abc'' ''s1'' = Inl ERR_CRYPTO_TIMING_SAFE_EQUAL_LENGTH"
  by (simp add: verifySignature_cases)

text \<open>
  The part of that requirement the code meets: a signature of 64 bytes that is not hexadecimal
  is answered with \<open>false\<close>.
\<close>

lemma verifySignature_not_hex:
  assumes "length signature = 64" and "c \<in> set signature" and "c \<notin> set ''0123456789abcdef''"
  shows "verifySignature payload signature secret = Inr False"
  using assms createSignature_hex [of c payload secret]
  by (auto simp: verifySignature_cases)

text \<open>
  The comparison is between strings, so it distinguishes the case of the letters: the uppercase
  form of the right signature is accepted exactly when it is the signature itself, that is, when
  the digest has no letter among its 64 hexadecimal digits.
\<close>

lemma upper_char_fixed:
  "upper_char c = c \<longleftrightarrow> \<not> (97 \<le> (of_char c :: nat) \<and> (of_char c :: nat) \<le> 122)"
proof (cases "97 \<le> (of_char c :: nat) \<and> (of_char c :: nat) \<le> 122")
  case True
  have "char_of ((of_char c :: nat) - 32) \<noteq> c"
  proof
    assume "char_of ((of_char c :: nat) - 32) = c"
    then have "(of_char (char_of ((of_char c :: nat) - 32)) :: nat) = of_char c" by simp
    then have "((of_char c :: nat) - 32) mod 256 = of_char c" by simp
    moreover from True have "(of_char c :: nat) - 32 < 256" by arith
    ultimately have "(of_char c :: nat) - 32 = of_char c" by simp
    with True show False by arith
  qed
  with True show ?thesis by (auto simp: upper_char_def)
next
  case False
  then show ?thesis by (auto simp: upper_char_def)
qed

lemma toUpperCase_fixed:
  "toUpperCase s = s \<longleftrightarrow> (\<forall>c \<in> set s. \<not> (97 \<le> (of_char c :: nat) \<and> (of_char c :: nat) \<le> 122))"
  unfolding toUpperCase_def by (induction s) (simp_all add: upper_char_fixed)

lemma verifySignature_uppercase:
  "verifySignature payload (toUpperCase (createSignature payload secret)) secret
     = Inr (toUpperCase (createSignature payload secret) = createSignature payload secret)"
  by (simp add: verifySignature_cases toUpperCase_def length_createSignature)

section \<open>Properties of the parser and of the examples\<close>

lemma parse_value_container:
  assumes "parse_value (Suc n) (c # cs) = Ok v rest" and "c = CHR ''{'' \<or> c = CHR ''[''"
  shows "(\<exists>kvs. v = Obj kvs) \<or> (\<exists>xs. v = Arr xs)"
  using assms
  by (auto simp: then_parse_def make_object_def split: if_splits list.splits parsed.splits)

lemma JSON_parse_container:
  assumes "JSON_parse s = Ok v rest" and "skip_ws s = c # cs"
    and "c = CHR ''{'' \<or> c = CHR ''[''"
  shows "(\<exists>kvs. v = Obj kvs) \<or> (\<exists>xs. v = Arr xs)"
proof -
  obtain v' rest' where p: "parse_value (Suc (2 * length s + 1)) (c # cs) = Ok v' rest'"
    and v: "v = v'"
    using assms(1,2)
    by (auto simp: JSON_parse_def then_parse_def split: parsed.splits if_splits)
  from parse_value_container [OF p assms(3)] v show ?thesis by simp
qed

text \<open>What reaches the route is an object or an array, which \<open>JSON_stringify\<close> prints.\<close>

lemma express_json_body:
  assumes "express_json raw = Next req"
  shows "(\<exists>kvs. body req = Obj kvs) \<or> (\<exists>xs. body req = Arr xs)"
proof (cases "raw_body raw = []")
  case True
  with assms have "req = \<lparr> headers = raw_headers raw, body = Obj [] \<rparr>"
    by (simp add: express_json_def)
  then show ?thesis by simp
next
  case False
  show ?thesis
  proof (cases "skip_ws (raw_body raw)")
    case Nil
    with assms False show ?thesis
      by (simp add: express_json_def split: if_splits)
  next
    case (Cons c cs)
    show ?thesis
    proof (cases "JSON_parse (raw_body raw)")
      case (Ok v rest)
      from assms False Cons Ok have c: "c = CHR ''{'' \<or> c = CHR ''[''"
        and v: "body req = v"
        by (auto simp add: express_json_def split: if_splits)
      from JSON_parse_container [OF Ok Cons c] v show ?thesis by simp
    qed (use assms False Cons in \<open>simp_all add: express_json_def split: if_splits\<close>)
  qed
qed

lemma express_json_headers:
  assumes "express_json raw = Next req"
  shows "headers req = raw_headers raw"
  using assms by (auto simp: express_json_def split: if_splits list.splits parsed.splits)

lemma JSON_stringify_container:
  assumes "(\<exists>kvs. b = Obj kvs) \<or> (\<exists>xs. b = Arr xs)"
  shows "\<exists>payload. JSON_stringify b = Some payload"
  using assms by auto

lemma JSON_parse_spaced: "JSON_parse ''{\"query\": \"x\"}'' = Ok query_x []"
  by code_simp

lemma express_json_spaced:
  "express_json \<lparr> raw_headers = hs, raw_body = ''{\"query\": \"x\"}'' \<rparr>
     = Next \<lparr> headers = hs, body = query_x \<rparr>"
  by (simp add: express_json_def JSON_parse_spaced is_ws_def)

lemma JSON_stringify_query_x: "JSON_stringify query_x = Some ''{\"query\":\"x\"}''"
  by (simp add: query_x_def JSON_quote_def quote_char_def)

lemma duration_env0: "endTime env0 - startTime env0 = 7"
  by (simp add: env0_def)

lemma agent_simps [simp]:
  "config_webhookSecret agent_s1 = ''s1''"
  "config_webhookSecret (onQuery h agent) = config_webhookSecret agent"
  "queryHandler agent_s1 = None"
  "queryHandler (onQuery h agent) = Some h"
  by (simp_all add: onQuery_def agent_s1_def new_MTAgent_def)

section \<open>Properties of the query normalisation\<close>


lemma single_chain:
  "js_or (get_prop (Obj kvs) k) (Inr d) = Inr (first_truthy [k] kvs d)"
  by (simp add: js_or_def split: option.splits)

lemma first_truthy_append:
  "first_truthy ks kvs (first_truthy ks' kvs d) = first_truthy (ks @ ks') kvs d"
  by (induction ks) (simp_all split: option.splits)

lemma build_query_Obj:
  "build_query e (Obj kvs) =
     Inr \<lparr> queryId = first_truthy [''query_id'', ''queryId''] kvs (Str (randomUUID e)),
           text = first_truthy [''query'', ''text'', ''prompt''] kvs (Str []),
           capabilities = first_truthy [''capabilities'', ''capabilities_needed''] kvs (Arr []),
           metadata = first_truthy [''metadata''] kvs (Obj []),
           timestamp = first_truthy [''timestamp''] kvs (Str (nowISO e)) \<rparr>"
  unfolding build_query_def single_chain first_truthy_append append.simps
  by (simp only: sum.case)



text \<open>
  On a body that is \<^verbatim>\<open>undefined\<close> or \<^verbatim>\<open>null\<close> the first read, \<^verbatim>\<open>req.body.query_id\<close>, throws.
\<close>

lemma js_or_Inl: "js_or (Inl err) b = Inl err"
  by (simp add: js_or_def)

lemma build_query_Undefined:
  "build_query e Undefined = Inl (nullish_read ''undefined'' ''query_id'')"
  unfolding build_query_def get_prop.simps js_or_Inl by (simp only: sum.case)

lemma build_query_Null:
  "build_query e Null = Inl (nullish_read ''null'' ''query_id'')"
  unfolding build_query_def get_prop.simps js_or_Inl by (simp only: sum.case)

lemma build_query_x: "build_query env0 query_x = Inr canonical_x"
  by (simp add: query_x_def build_query_Obj env0_def canonical_x_def)

text \<open>
  C5, as amended. Each field of the canonical query is read from the first alias, in order,
  whose value is truthy (a missing field, \<^verbatim>\<open>null\<close>, \<^verbatim>\<open>false\<close>, \<^verbatim>\<open>0\<close> and the empty string are
  passed over): the text from \<^verbatim>\<open>query\<close>, then \<^verbatim>\<open>text\<close>, then \<^verbatim>\<open>prompt\<close>, and the empty string when
  none is truthy; the identifier from \<^verbatim>\<open>query_id\<close>, then \<^verbatim>\<open>queryId\<close>, and the identifier that
  \<^verbatim>\<open>crypto.randomUUID()\<close> returned when neither is truthy. The normalisation of an object body
  never fails.
\<close>

theorem query_normalization_first_truthy:
  "\<exists>q. build_query e (Obj kvs) = Inr q
     \<and> text q = first_truthy [''query'', ''text'', ''prompt''] kvs (Str [])
     \<and> queryId q = first_truthy [''query_id'', ''queryId''] kvs (Str (randomUUID e))"
  by (simp add: build_query_Obj)

text \<open>
  C5 as the specification states it fails on the body \<^verbatim>\<open>{"query":"","text":"hi"}\<close>: the first
  alias that is present is \<^verbatim>\<open>query\<close>, whose value is the empty string, and the text of the
  canonical query is \<^verbatim>\<open>hi\<close>.
\<close>

theorem empty_query_field_is_skipped:
  "build_query env0 (Obj [(''query'', Str []), (''text'', Str ''hi'')])
     = Inr (canonical_x \<lparr> text := Str ''hi'' \<rparr>)
   \<and> first_present [''query'', ''text'', ''prompt'']
         [(''query'', Str []), (''text'', Str ''hi'')] (Str []) = Str []"
  by (simp add: build_query_Obj canonical_x_def env0_def)

text \<open>The three cases the specification names, under the amended reading.\<close>

lemma query_hi:
  "build_query env0 (Obj [(''query'', Str ''hi'')]) = Inr (canonical_x \<lparr> text := Str ''hi'' \<rparr>)"
  by (simp add: build_query_Obj canonical_x_def env0_def)

lemma query_id_precedence:
  assumes "map_of kvs ''query_id'' = Some v" and "truthy v"
  shows "\<exists>q. build_query e (Obj kvs) = Inr q \<and> queryId q = v"
  using assms by (simp add: build_query_Obj)

lemma query_id_generated:
  assumes "\<not> truthy (case map_of kvs ''query_id'' of Some v \<Rightarrow> v | None \<Rightarrow> Undefined)"
    and "\<not> truthy (case map_of kvs ''queryId'' of Some v \<Rightarrow> v | None \<Rightarrow> Undefined)"
  shows "\<exists>q. build_query e (Obj kvs) = Inr q \<and> queryId q = Str (randomUUID e)"
  using assms by (simp add: build_query_Obj split: option.splits)

section \<open>Properties of the route \<^verbatim>\<open>POST /query\<close>\<close>

lemma post_query_passes:
  assumes "passes_signature_check agent req"
  shows "snd (post_query agent e req) = snd (after_signature agent e req)"
    and "\<exists>evs. fst (post_query agent e req) = evs @ fst (after_signature agent e req)
           \<and> (\<forall>q. HandlerCall q \<notin> set evs)"
  using assms
  by (auto simp: passes_signature_check_def post_query_def split: option.splits prod.splits)

lemma post_query_signed:
  assumes "headers req ''x-mt-signature'' = Some signature" and "signature \<noteq> []"
    and "JSON_stringify (body req) = Some payload"
  shows "\<exists>events. fst (post_query agent e req)
           = VerifySignatureCall payload signature (config_webhookSecret agent) # events"
  using assms by (auto simp: post_query_def split: sum.splits prod.splits)

text \<open>
  C3, as amended. For every \<^verbatim>\<open>POST /query\<close> request that the JSON middleware lets through and
  that carries a non-empty signature header, the payload the route passes to the signature
  verification is \<^verbatim>\<open>JSON.stringify(req.body)\<close>: a serialisation, made after parsing, of the
  value the body was parsed to, and not the bytes that were received.
\<close>

theorem verification_payload_is_reserialized_body:
  assumes "express_json raw = Next req"
    and "headers req ''x-mt-signature'' = Some signature" and "signature \<noteq> []"
  shows "\<exists>payload events.
           JSON_stringify (body req) = Some payload
           \<and> fst (post_query agent e req)
               = VerifySignatureCall payload signature (config_webhookSecret agent) # events"
proof -
  obtain payload where "JSON_stringify (body req) = Some payload"
    using JSON_stringify_container [OF express_json_body [OF assms(1)]] by blast
  with post_query_signed [OF assms(2,3)] show ?thesis by blast
qed

theorem verification_payload_is_reserialized_body_witness:
  "express_json \<lparr> raw_headers = [''x-mt-signature'' \<mapsto> sig_raw],
                   raw_body = ''{\"query\": \"x\"}'' \<rparr>
     = Next \<lparr> headers = [''x-mt-signature'' \<mapsto> sig_raw], body = query_x \<rparr>
   \<and> JSON_stringify query_x = Some ''{\"query\":\"x\"}''
   \<and> (\<exists>events.
         fst (post_query agent_s1 env0
                \<lparr> headers = [''x-mt-signature'' \<mapsto> sig_raw], body = query_x \<rparr>)
           = VerifySignatureCall ''{\"query\":\"x\"}'' sig_raw ''s1'' # events)"
proof -
  have "sig_raw \<noteq> []" by (simp add: sig_raw_def)
  then show ?thesis
    using verification_payload_is_reserialized_body
      [of "\<lparr> raw_headers = [''x-mt-signature'' \<mapsto> sig_raw], raw_body = ''{\"query\": \"x\"}'' \<rparr>"
          "\<lparr> headers = [''x-mt-signature'' \<mapsto> sig_raw], body = query_x \<rparr>"
          sig_raw agent_s1 env0]
    by (simp add: express_json_spaced JSON_stringify_query_x)
qed

text \<open>
  C3 as the specification states it fails on a body that is not in the compact form: the sender
  sends the fourteen bytes \<^verbatim>\<open>{"query": "x"}\<close> and signs them, and the route verifies the header
  against the thirteen bytes \<^verbatim>\<open>{"query":"x"}\<close>.
\<close>

theorem payload_differs_from_raw_body:
  "express_json \<lparr> raw_headers = [''x-mt-signature'' \<mapsto> sig_raw],
                   raw_body = ''{\"query\": \"x\"}'' \<rparr>
     = Next \<lparr> headers = [''x-mt-signature'' \<mapsto> sig_raw], body = query_x \<rparr>
   \<and> hd (fst (post_query agent_s1 env0
                 \<lparr> headers = [''x-mt-signature'' \<mapsto> sig_raw], body = query_x \<rparr>))
       = VerifySignatureCall ''{\"query\":\"x\"}'' sig_raw ''s1''
   \<and> ''{\"query\":\"x\"}'' \<noteq> ''{\"query\": \"x\"}''"
proof -
  have "sig_raw \<noteq> []" by (simp add: sig_raw_def)
  from post_query_signed [of "\<lparr> headers = [''x-mt-signature'' \<mapsto> sig_raw], body = query_x \<rparr>"
      sig_raw "''{\"query\":\"x\"}''" agent_s1 env0] this
  obtain events where
    "fst (post_query agent_s1 env0 \<lparr> headers = [''x-mt-signature'' \<mapsto> sig_raw], body = query_x \<rparr>)
       = VerifySignatureCall ''{\"query\":\"x\"}'' sig_raw ''s1'' # events"
    by (auto simp: JSON_stringify_query_x)
  then show ?thesis by (simp add: express_json_spaced)
qed

text \<open>
  C4, as amended. For every \<^verbatim>\<open>POST /query\<close> request whose signature header has the length of a
  signature (64 bytes) and differs from the signature of \<^verbatim>\<open>JSON.stringify(req.body)\<close> under the
  configured secret (one computed with another secret, for instance), the route calls the
  verification, responds with status 401 and the body \<^verbatim>\<open>{error:"Invalid signature"}\<close>, and does
  not call the handler.
\<close>

theorem wrong_signature_rejected:
  assumes "headers req ''x-mt-signature'' = Some signature"
    and "length signature = 64"
    and "JSON_stringify (body req) = Some payload"
    and "signature \<noteq> createSignature payload (config_webhookSecret agent)"
  shows "post_query agent e req =
           ([VerifySignatureCall payload signature (config_webhookSecret agent)],
            Responded 401 (Obj [(''error'', Str ''Invalid signature'')]))"
  using assms by (auto simp: post_query_def verifySignature_cases)

theorem wrong_signature_rejected_witness:
  "length sig_z = 64
   \<and> sig_z \<noteq> createSignature ''{\"query\":\"x\"}'' ''s1''
   \<and> post_query (onQuery echo agent_s1) env0
         \<lparr> headers = [''x-mt-signature'' \<mapsto> sig_z], body = query_x \<rparr>
       = ([VerifySignatureCall ''{\"query\":\"x\"}'' sig_z ''s1''],
          Responded 401 (Obj [(''error'', Str ''Invalid signature'')]))"
proof -
  have len: "length sig_z = 64" by (simp add: sig_z_def)
  show ?thesis
    using wrong_signature_rejected
      [of "\<lparr> headers = [''x-mt-signature'' \<mapsto> sig_z], body = query_x \<rparr>" sig_z
          "''{\"query\":\"x\"}''" "onQuery echo agent_s1" env0]
      len sig_z_differs [of "''{\"query\":\"x\"}''" "''s1''"]
    by (simp add: JSON_stringify_query_x)
qed

text \<open>
  C4 as the specification states it fails on a header that is present and empty: the empty
  string is not a valid signature, and the route skips the verification and calls the handler.
\<close>

theorem empty_signature_header_reaches_handler:
  "headers \<lparr> headers = [''x-mt-signature'' \<mapsto> []], body = query_x \<rparr> ''x-mt-signature'' = Some []
   \<and> verifySignature ''{\"query\":\"x\"}'' [] ''s1'' \<noteq> Inr True
   \<and> post_query (onQuery echo agent_s1) env0
         \<lparr> headers = [''x-mt-signature'' \<mapsto> []], body = query_x \<rparr>
       = ([HandlerCall canonical_x],
          Responded 200 (Obj [(''success'', Bool True), (''response'', Str ''ok''),
                              (''metadata'', Undefined), (''duration_ms'', Num 7)]))"
  by (simp add: verifySignature_cases post_query_def after_signature_def
      try_block_def build_query_x echo_def duration_env0)

text \<open>
  C6, as amended. When no handler has been registered and the request passes the signature
  check, the route responds with status 500 and the body \<^verbatim>\<open>{error:"No query handler registered"}\<close>,
  which has no \<^verbatim>\<open>success\<close> field, and calls no handler.
\<close>

theorem no_handler_responds_500:
  assumes "queryHandler agent = None" and "passes_signature_check agent req"
  shows "snd (post_query agent e req)
           = Responded 500 (Obj [(''error'', Str ''No query handler registered'')])
         \<and> (\<forall>q. HandlerCall q \<notin> set (fst (post_query agent e req)))"
  using post_query_passes [OF assms(2), of e] assms(1)
  by (auto simp: after_signature_def)

theorem no_handler_responds_500_witness:
  "queryHandler agent_s1 = None
   \<and> passes_signature_check agent_s1 \<lparr> headers = Map.empty, body = query_x \<rparr>
   \<and> snd (post_query agent_s1 env0 \<lparr> headers = Map.empty, body = query_x \<rparr>)
       = Responded 500 (Obj [(''error'', Str ''No query handler registered'')])
   \<and> (\<forall>q. HandlerCall q \<notin> set (fst (post_query agent_s1 env0 \<lparr> headers = Map.empty, body = query_x \<rparr>)))"
proof -
  have "passes_signature_check agent_s1 \<lparr> headers = Map.empty, body = query_x \<rparr>"
    by (simp add: passes_signature_check_def)
  then show ?thesis
    using no_handler_responds_500 [of agent_s1 "\<lparr> headers = Map.empty, body = query_x \<rparr>" env0]
    by simp
qed

text \<open>
  C6 as the specification states it fails on every request: the body of the response is the
  object with the single field \<^verbatim>\<open>error\<close>, and reading \<^verbatim>\<open>success\<close> from it gives \<^verbatim>\<open>undefined\<close>, not
  \<^verbatim>\<open>false\<close>.
\<close>

theorem no_handler_body_lacks_success:
  "post_query agent_s1 env0 \<lparr> headers = Map.empty, body = query_x \<rparr>
     = ([], Responded 500 (Obj [(''error'', Str ''No query handler registered'')]))
   \<and> get_prop (Obj [(''error'', Str ''No query handler registered'')]) ''success'' = Inr Undefined"
  by (simp add: post_query_def after_signature_def)

text \<open>
  C7. Every failure of the handler is to be answered with status 500 and an envelope. A handler
  that rejects with \<^verbatim>\<open>undefined\<close> (\<^verbatim>\<open>Promise.reject()\<close>) is not: reading \<^verbatim>\<open>error.message\<close> in the
  \<^verbatim>\<open>catch\<close> block throws a \<^verbatim>\<open>TypeError\<close>, which leaves the callback, and the route sends nothing.
\<close>

theorem rejection_with_undefined_is_unhandled:
  "post_query (onQuery (\<lambda>query. Rejected Undefined) agent_s1) env0
     \<lparr> headers = Map.empty, body = query_x \<rparr>
   = ([HandlerCall canonical_x], Unhandled (nullish_read ''undefined'' ''message''))"
  by (simp add: post_query_def after_signature_def try_block_def build_query_x catch_block_def)

text \<open>
  What the \<^verbatim>\<open>catch\<close> block does for every other failure: when the value the handler rejected with
  is neither \<^verbatim>\<open>undefined\<close> nor \<^verbatim>\<open>null\<close>, the route responds with status 500, \<^verbatim>\<open>success:false\<close>, the
  message of the failure (or \<^verbatim>\<open>Query handler error\<close> when the message is missing or empty) and the
  difference of the two clock readings, which is not negative when the clock did not go back.
\<close>

lemma get_prop_defined:
  assumes "v \<noteq> Undefined" and "v \<noteq> Null"
  shows "\<exists>m. get_prop v k = Inr m"
  using assms by (cases v) simp_all

lemma handler_rejection_caught:
  assumes "passes_signature_check agent req"
    and "queryHandler agent = Some handler"
    and "build_query e (body req) = Inr query"
    and "handler query = Rejected v"
    and "get_prop v ''message'' = Inr m"
  shows "snd (post_query agent e req)
           = Responded 500 (Obj [(''success'', Bool False),
                                 (''error'', if truthy m then m else Str ''Query handler error''),
                                 (''duration_ms'', Num (endTime e - startTime e))])"
  using post_query_passes(1) [OF assms(1), of e] assms(2-)
  by (simp add: after_signature_def try_block_def catch_block_def)

lemma handler_error_caught:
  "snd (post_query (onQuery (\<lambda>query. Rejected (Obj [(''message'', Str ''boom'')])) agent_s1) env0
          \<lparr> headers = Map.empty, body = query_x \<rparr>)
     = Responded 500 (Obj [(''success'', Bool False), (''error'', Str ''boom''),
                           (''duration_ms'', Num 7)])"
  by (simp add: post_query_def after_signature_def try_block_def build_query_x catch_block_def
      duration_env0)




text \<open>
  The hypothesis on the body is needed in full: on every request without the header whose body
  is \<^verbatim>\<open>undefined\<close> or \<^verbatim>\<open>null\<close> the route makes no call at all.
\<close>

lemma unsigned_request_nullish_body:
  assumes "headers req ''x-mt-signature'' = None"
    and "queryHandler agent = Some handler"
    and "body req = Undefined \<or> body req = Null"
  shows "fst (post_query agent e req) = []"
  using assms
  by (auto simp: post_query_def after_signature_def try_block_def build_query_Undefined
      build_query_Null)

text \<open>
  C10. For every result of the handler, on a request that passes the signature check, the route
  responds with status 200 and the object of exactly the four fields \<^verbatim>\<open>success\<close>, \<^verbatim>\<open>response\<close>,
  \<^verbatim>\<open>metadata\<close> and \<^verbatim>\<open>duration_ms\<close>; the \<^verbatim>\<open>cost\<close> of the result is not in it.
\<close>

theorem success_envelope_has_no_cost:
  assumes "passes_signature_check agent req"
    and "queryHandler agent = Some handler"
    and "build_query e (body req) = Inr query"
    and "handler query = Resolved r"
  shows "snd (post_query agent e req)
           = Responded 200 (Obj [(''success'', Bool True),
                                 (''response'', Str (response r)),
                                 (''metadata'', QueryResponse.metadata r),
                                 (''duration_ms'', Num (endTime e - startTime e))])"
  using post_query_passes(1) [OF assms(1), of e] assms(2-)
  by (simp add: after_signature_def try_block_def)

theorem success_envelope_has_no_cost_witness:
  "passes_signature_check (onQuery echo agent_s1) \<lparr> headers = Map.empty, body = query_x \<rparr>
   \<and> echo canonical_x = Resolved \<lparr> response = ''ok'', metadata = Undefined, cost = Some 5 \<rparr>
   \<and> snd (post_query (onQuery echo agent_s1) env0 \<lparr> headers = Map.empty, body = query_x \<rparr>)
       = Responded 200 (Obj [(''success'', Bool True), (''response'', Str ''ok''),
                             (''metadata'', Undefined), (''duration_ms'', Num 7)])"
proof -
  have p: "passes_signature_check (onQuery echo agent_s1) \<lparr> headers = Map.empty, body = query_x \<rparr>"
    by (simp add: passes_signature_check_def)
  have r: "echo canonical_x = Resolved \<lparr> response = ''ok'', metadata = Undefined, cost = Some 5 \<rparr>"
    by (simp add: echo_def)
  show ?thesis
    using success_envelope_has_no_cost
      [of "onQuery echo agent_s1" "\<lparr> headers = Map.empty, body = query_x \<rparr>" echo env0 canonical_x
          "\<lparr> response = ''ok'', metadata = Undefined, cost = Some 5 \<rparr>"]
      p r
    by (simp add: build_query_x duration_env0)
qed

end
